theory Spec2Isabelle
  imports Complex_Main
begin

section \<open>The pages of the weather station display (pages.py)\<close>

text \<open>
  The module pages.py holds seven page classes. Every page keeps a reference to the
  weather station, a list \<open>pages\<close> of subpages and \<open>current_page\<close>, the index of
  the subpage that is shown (\<open>None\<close> when the page shows itself). \<open>update\<close> redraws
  the page on the screen of the station, \<open>click\<close> handles a press of the button.

  The embedding makes explicit what the methods do beyond returning:
  \<^item> the page object is a value of the datatype \<open>page\<close>, one constructor for each
    class, and a method returns the page as it is after the call;
  \<^item> the calls on the screen, the writes to standard output, the pauses and the
    commands given to the host are collected, in order, in a list of \<open>effect\<close>s;
  \<^item> an exception is the left summand of the result. In every method the calls that
    can raise come before the first effect, so an exception comes with no effects.

  The screen, standard output and the host are outside of the module: their calls are
  taken to return.
\<close>

subsection \<open>Exceptions and effects\<close>

datatype error = TypeError | AttributeError | IndexError | FileNotFoundError | ValueError

type_synonym image = "nat list"

text \<open>
  \<open>Path(base_path) / rel\<close>: the path object is kept as the pair of its two parts,
  pathlib's normalisation is left to the file system below.
\<close>

datatype path = Path_join string string

text \<open>
  One constructor for each call that leaves the program: the four drawing methods of
  the screen, \<open>print\<close>, \<open>time.sleep\<close> (its argument in seconds) and
  \<open>os.system\<close>.
\<close>

datatype effect =
    display "string option" "string option" "image option"
  | display_top_bottom string string
  | display_bitmap image
  | display_text string
  | print string
  | sleep rat
  | os_system string

subsection \<open>The weather station\<close>

text \<open>
  Modelled from the spec: the forecast record behind \<open>coldest\<close> and \<open>hottest\<close>,
  whose class is not part of pages.py. \<open>temp_min\<close> and \<open>temp_max\<close> are the
  entries of the dictionary that \<open>get_temperature(unit='celsius')\<close> returns,
  \<open>reference_time\<close> is the Unix timestamp that \<open>get_reference_time()\<close> returns.
  A temperature is the exact value of a finite number, a rational.
\<close>

record weather =
  temp_min :: rat
  temp_max :: rat
  reference_time :: int

text \<open>
  Modelled from the spec: the attributes of the WeatherStation object that the pages
  read. Each of them may be \<open>None\<close>. Of \<open>weather_hour\<close> only the presence is read.
\<close>

record weather_station =
  weather_hour :: "unit option"
  outside_temp :: "rat option"
  inside_temp :: "rat option"
  icon :: "string option"
  coldest :: "weather option"
  hottest :: "weather option"

text \<open>
  What a call of \<open>update\<close> reads: the station, the image files that exist, and the
  offset in seconds of local time from UTC at a given timestamp.
\<close>

record env =
  station :: weather_station
  files :: "path \<Rightarrow> image option"
  utc_offset :: "int \<Rightarrow> int"

subsection \<open>Library functions\<close>

text \<open>\<open>round(x)\<close> with one argument: the nearest integer, a tie goes to the even one.\<close>

definition py_round :: "rat \<Rightarrow> int" where
  "py_round x =
     (let f = \<lfloor>x\<rfloor>; d = x - of_int f
      in if d < 1 / 2 then f
         else if 1 / 2 < d then f + 1
         else if even f then f else f + 1)"

text \<open>\<open>str(n)\<close> of an integer: its decimal digits, after a minus sign when negative.\<close>

fun str_nat :: "nat \<Rightarrow> string" where
  "str_nat n =
     (if n < 10 then [''0123456789'' ! n]
      else str_nat (n div 10) @ [''0123456789'' ! (n mod 10)])"

declare str_nat.simps [simp del]

definition str :: "int \<Rightarrow> string" where
  "str i = (if i < 0 then CHR ''-'' # str_nat (nat (- i)) else str_nat (nat i))"

text \<open>
  \<open>xs[i]\<close> on a list: a negative index counts from the end, an index out of range
  raises IndexError. \<open>position n i\<close> is the place in a list of length \<open>n\<close> that
  the index \<open>i\<close> names.
\<close>

definition position :: "nat \<Rightarrow> int \<Rightarrow> nat option" where
  "position n i =
     (if 0 \<le> i \<and> i < int n then Some (nat i)
      else if i < 0 \<and> - int n \<le> i then Some (nat (int n + i))
      else None)"

definition getitem :: "'a list \<Rightarrow> int \<Rightarrow> error + 'a" where
  "getitem xs i = (case position (length xs) i of None \<Rightarrow> Inl IndexError | Some k \<Rightarrow> Inr (xs ! k))"

text \<open>
  The pages of a list are objects: what a method call changes in \<open>xs[i]\<close> is seen
  through the list afterwards. \<open>put_back\<close> stores the object as it is after the call.
\<close>

definition put_back :: "'a list \<Rightarrow> int \<Rightarrow> 'a \<Rightarrow> 'a list" where
  "put_back xs i v = (case position (length xs) i of None \<Rightarrow> xs | Some k \<Rightarrow> xs[k := v])"

text \<open>\<open>Image.open\<close>: the image of the file, FileNotFoundError when there is none.\<close>

definition Image_open :: "env \<Rightarrow> path \<Rightarrow> error + image" where
  "Image_open e f = (case files e f of None \<Rightarrow> Inl FileNotFoundError | Some im \<Rightarrow> Inr im)"

text \<open>
  \<open>datetime.fromtimestamp(t)\<close>: the local time, here as seconds since the local
  1970-01-01 00:00. The years of a datetime run from 1 to 9999; outside of them the
  call raises (ValueError or OverflowError, as the platform has it).
\<close>

definition fromtimestamp :: "env \<Rightarrow> int \<Rightarrow> error + int" where
  "fromtimestamp e t =
     (let l = t + utc_offset e t
      in if - 62135596800 \<le> l \<and> l \<le> 253402300799 then Inr l else Inl ValueError)"

text \<open>\<open>strftime('%H:%M')\<close>: hour and minute of the day, two digits each.\<close>

definition two_digits :: "int \<Rightarrow> string" where
  "two_digits n = (if n < 10 then CHR ''0'' # str n else str n)"

definition strftime_HM :: "int \<Rightarrow> string" where
  "strftime_HM l = two_digits (l div 3600 mod 24) @ '':'' @ two_digits (l div 60 mod 60)"

subsection \<open>The page classes\<close>

text \<open>
  One constructor for each class, with the attributes the constructor of the class
  sets: \<open>base_path\<close> where the class has it, then \<open>pages\<close> and \<open>current_page\<close>.
  The weather station every page refers to is the one of the environment.
\<close>

datatype page =
    CurrentWeatherPage (base_path: string) (pages: "page list") (current_page: "int option")
  | MinMaxTemperaturePage (pages: "page list") (current_page: "int option")
  | MinMaxHoursPage (pages: "page list") (current_page: "int option")
  | SettingsPage (base_path: string) (pages: "page list") (current_page: "int option")
  | ShutdownPage (pages: "page list") (current_page: "int option")
  | RebootPage (pages: "page list") (current_page: "int option")
  | BackPage (pages: "page list") (current_page: "int option")

text \<open>The constructors \<open>__init__\<close>: \<open>Page.__init__\<close>, then the subpages are appended.\<close>

definition CurrentWeatherPage_init :: "string \<Rightarrow> page" where
  "CurrentWeatherPage_init bp = CurrentWeatherPage bp [] None"

definition MinMaxHoursPage_init :: page where
  "MinMaxHoursPage_init = MinMaxHoursPage [] None"

definition MinMaxTemperaturePage_init :: page where
  "MinMaxTemperaturePage_init = MinMaxTemperaturePage ([] @ [MinMaxHoursPage_init]) None"

definition ShutdownPage_init :: page where
  "ShutdownPage_init = ShutdownPage [] None"

definition RebootPage_init :: page where
  "RebootPage_init = RebootPage [] None"

definition BackPage_init :: page where
  "BackPage_init = BackPage [] None"

definition SettingsPage_init :: "string \<Rightarrow> page" where
  "SettingsPage_init bp =
     SettingsPage bp ((([] @ [ShutdownPage_init]) @ [RebootPage_init]) @ [BackPage_init]) None"

subsection \<open>update\<close>

text \<open>The drawing of each class when the page shows itself.\<close>

definition icon_file :: "string \<Rightarrow> string \<Rightarrow> path" where
  "icon_file bp name = Path_join bp (''icons/'' @ name @ ''.bmp'')"

definition CurrentWeatherPage_update :: "env \<Rightarrow> string \<Rightarrow> error + effect list" where
  "CurrentWeatherPage_update e bp =
     (case
        (case weather_hour (station e) of
           None \<Rightarrow> Inr (None, None)
         | Some _ \<Rightarrow>
             (case outside_temp (station e) of
                None \<Rightarrow> Inl TypeError
              | Some t \<Rightarrow>
                  (case icon (station e) of
                     None \<Rightarrow> Inl TypeError
                   | Some ic \<Rightarrow>
                       (case Image_open e (icon_file bp (take 2 ic)) of
                          Inl x \<Rightarrow> Inl x
                        | Inr img \<Rightarrow> Inr (Some (str (py_round t)), Some img)))))
      of
        Inl x \<Rightarrow> Inl x
      | Inr (outside, img) \<Rightarrow>
          Inr [display outside (map_option (\<lambda>t. str (py_round t)) (inside_temp (station e))) img,
               print ''Screen updated.''])"

definition MinMaxTemperaturePage_main :: "env \<Rightarrow> error + effect list" where
  "MinMaxTemperaturePage_main e =
     (case coldest (station e) of
        Some c \<Rightarrow>
          (let min = ''Min:'' @ str (py_round (temp_min c))
           in case hottest (station e) of
                None \<Rightarrow> Inl AttributeError
              | Some h \<Rightarrow>
                  (let max = ''Max:'' @ str (py_round (temp_max h))
                   in Inr [display_top_bottom min max]))
      | None \<Rightarrow> Inr [display_top_bottom ''Min Max'' ''error''])"

definition MinMaxHoursPage_update :: "env \<Rightarrow> error + effect list" where
  "MinMaxHoursPage_update e =
     (case coldest (station e) of
        Some c \<Rightarrow>
          (case fromtimestamp e (reference_time c) of
             Inl x \<Rightarrow> Inl x
           | Inr lmin \<Rightarrow>
               (let min_hour = strftime_HM lmin
                in case hottest (station e) of
                     None \<Rightarrow> Inl AttributeError
                   | Some h \<Rightarrow>
                       (case fromtimestamp e (reference_time h) of
                          Inl x \<Rightarrow> Inl x
                        | Inr lmax \<Rightarrow>
                            (let max_hour = strftime_HM lmax
                             in Inr [display_top_bottom min_hour max_hour]))))
      | None \<Rightarrow> Inr [display_top_bottom ''Hours'' ''error''])"

definition SettingsPage_main :: "env \<Rightarrow> string \<Rightarrow> error + effect list" where
  "SettingsPage_main e bp =
     (case Image_open e (Path_join bp ''icons/cog.bmp'') of
        Inl x \<Rightarrow> Inl x
      | Inr img \<Rightarrow> Inr [display_bitmap img])"

lemma position_less: "position n i = Some k \<Longrightarrow> k < n"
  by (auto simp: position_def split: if_splits)

lemma getitem_in_set: "getitem xs i = Inr x \<Longrightarrow> x \<in> set xs"
  by (auto simp: getitem_def dest: position_less split: option.splits)

lemma getitem_size: "getitem ps i = Inr (x :: page) \<Longrightarrow> size x < Suc (size_list size ps)"
  using size_list_estimation' [of x ps "size x" size] getitem_in_set [of ps i x] by simp

text \<open>
  \<open>update\<close>, dispatched on the class of the page. A page that shows a subpage hands
  the call to \<open>self.pages[self.current_page]\<close>.
\<close>

function update :: "env \<Rightarrow> page \<Rightarrow> error + page \<times> effect list" where
  "update e (CurrentWeatherPage bp ps cp) =
     (case CurrentWeatherPage_update e bp of
        Inl x \<Rightarrow> Inl x
      | Inr out \<Rightarrow> Inr (CurrentWeatherPage bp ps cp, out))"
| "update e (MinMaxTemperaturePage ps cp) =
     (case cp of
        None \<Rightarrow>
          (case MinMaxTemperaturePage_main e of
             Inl x \<Rightarrow> Inl x
           | Inr out \<Rightarrow> Inr (MinMaxTemperaturePage ps cp, out))
      | Some i \<Rightarrow>
          (case getitem ps i of
             Inl x \<Rightarrow> Inl x
           | Inr subpage \<Rightarrow>
               (case update e subpage of
                  Inl x \<Rightarrow> Inl x
                | Inr (subpage', out) \<Rightarrow>
                    Inr (MinMaxTemperaturePage (put_back ps i subpage') cp, out))))"
| "update e (MinMaxHoursPage ps cp) =
     (case MinMaxHoursPage_update e of
        Inl x \<Rightarrow> Inl x
      | Inr out \<Rightarrow> Inr (MinMaxHoursPage ps cp, out))"
| "update e (SettingsPage bp ps cp) =
     (case cp of
        None \<Rightarrow>
          (case SettingsPage_main e bp of
             Inl x \<Rightarrow> Inl x
           | Inr out \<Rightarrow> Inr (SettingsPage bp ps cp, out))
      | Some i \<Rightarrow>
          (case getitem ps i of
             Inl x \<Rightarrow> Inl x
           | Inr subpage \<Rightarrow>
               (case update e subpage of
                  Inl x \<Rightarrow> Inl x
                | Inr (subpage', out) \<Rightarrow>
                    Inr (SettingsPage bp (put_back ps i subpage') cp, out))))"
| "update e (ShutdownPage ps cp) = Inr (ShutdownPage ps cp, [display_text ''SHUTDOWN''])"
| "update e (RebootPage ps cp) = Inr (RebootPage ps cp, [display_text ''REBOOT''])"
| "update e (BackPage ps cp) = Inr (BackPage ps cp, [display_text ''BACK''])"
  by pat_completeness auto
termination
  by (relation "measure (\<lambda>(e, p). size p)") (auto dest: getitem_size)

subsection \<open>click\<close>

text \<open>The animation that ShutdownPage and RebootPage show, each in its own \<open>click\<close>.\<close>

definition ShutdownPage_click :: "effect list" where
  "ShutdownPage_click =
     [print ''Shutdown clicked'',
      display_text ''.'', sleep (2 / 10),
      display_text ''..'', sleep (2 / 10),
      display_text ''...'', sleep (2 / 10),
      display_text ''....'', sleep (2 / 10),
      display_text '''',
      os_system ''sudo shutdown -h now'']"

definition RebootPage_click :: "effect list" where
  "RebootPage_click =
     [print ''Reboot clicked'',
      display_text ''.'', sleep (2 / 10),
      display_text ''..'', sleep (2 / 10),
      display_text ''...'', sleep (2 / 10),
      display_text ''....'', sleep (2 / 10),
      display_text '''',
      os_system ''sudo reboot'']"

text \<open>
  \<open>click\<close>, dispatched on the class of the page. The two pages with subpages go to
  their first subpage when they show themselves; otherwise they hand the click to the
  subpage shown and return to themselves when the type of that subpage is the one they
  test for.
\<close>

function click :: "page \<Rightarrow> error + page \<times> effect list" where
  "click (CurrentWeatherPage bp ps cp) =
     Inr (CurrentWeatherPage bp ps cp, [print ''CurrentWeatherPage clicked''])"
| "click (MinMaxTemperaturePage ps cp) =
     (case cp of
        None \<Rightarrow> Inr (MinMaxTemperaturePage ps (Some 0), [])
      | Some i \<Rightarrow>
          (case getitem ps i of
             Inl x \<Rightarrow> Inl x
           | Inr subpage \<Rightarrow>
               (case click subpage of
                  Inl x \<Rightarrow> Inl x
                | Inr (subpage', out) \<Rightarrow>
                    Inr (MinMaxTemperaturePage (put_back ps i subpage')
                           (if is_MinMaxHoursPage subpage then None else cp), out))))"
| "click (MinMaxHoursPage ps cp) =
     Inr (MinMaxHoursPage ps cp, [print ''MinMaxHoursPage clicked''])"
| "click (SettingsPage bp ps cp) =
     (case cp of
        None \<Rightarrow> Inr (SettingsPage bp ps (Some 0), [])
      | Some i \<Rightarrow>
          (case getitem ps i of
             Inl x \<Rightarrow> Inl x
           | Inr subpage \<Rightarrow>
               (case click subpage of
                  Inl x \<Rightarrow> Inl x
                | Inr (subpage', out) \<Rightarrow>
                    Inr (SettingsPage bp (put_back ps i subpage')
                           (if is_BackPage subpage then None else cp), out))))"
| "click (ShutdownPage ps cp) = Inr (ShutdownPage ps cp, ShutdownPage_click)"
| "click (RebootPage ps cp) = Inr (RebootPage ps cp, RebootPage_click)"
| "click (BackPage ps cp) = Inr (BackPage ps cp, [print ''Back clicked''])"
  by pat_completeness auto
termination
  by (relation "measure size") (auto dest: getitem_size)

subsection \<open>Sequences of calls\<close>

text \<open>
  The driver calls \<open>update\<close> and \<open>click\<close> on a page, one call after the other. The
  station, the files and the clock may differ from one \<open>update\<close> to the next, so the
  event carries the environment of its call. An exception ends the sequence.
\<close>

datatype event = Update env | Click

fun step :: "page \<Rightarrow> event \<Rightarrow> error + page \<times> effect list" where
  "step p (Update e) = update e p"
| "step p Click = click p"

fun run :: "page \<Rightarrow> event list \<Rightarrow> error + page \<times> effect list" where
  "run p [] = Inr (p, [])"
| "run p (ev # evs) =
     (case step p ev of
        Inl x \<Rightarrow> Inl x
      | Inr (p', out) \<Rightarrow>
          (case run p' evs of
             Inl x \<Rightarrow> Inl x
           | Inr (p'', out') \<Rightarrow> Inr (p'', out @ out')))"

subsection \<open>Predicates for the statements\<close>

text \<open>The assignment \<open>self.current_page = v\<close>.\<close>

fun with_current_page :: "int option \<Rightarrow> page \<Rightarrow> page" where
  "with_current_page v (CurrentWeatherPage bp ps cp) = CurrentWeatherPage bp ps v"
| "with_current_page v (MinMaxTemperaturePage ps cp) = MinMaxTemperaturePage ps v"
| "with_current_page v (MinMaxHoursPage ps cp) = MinMaxHoursPage ps v"
| "with_current_page v (SettingsPage bp ps cp) = SettingsPage bp ps v"
| "with_current_page v (ShutdownPage ps cp) = ShutdownPage ps v"
| "with_current_page v (RebootPage ps cp) = RebootPage ps v"
| "with_current_page v (BackPage ps cp) = BackPage ps v"

text \<open>The pages as their constructors leave them.\<close>

fun constructed :: "page \<Rightarrow> bool" where
  "constructed (CurrentWeatherPage bp ps cp) = (CurrentWeatherPage bp ps cp = CurrentWeatherPage_init bp)"
| "constructed (SettingsPage bp ps cp) = (SettingsPage bp ps cp = SettingsPage_init bp)"
| "constructed p =
     (p = MinMaxTemperaturePage_init \<or> p = MinMaxHoursPage_init \<or> p = ShutdownPage_init \<or>
      p = RebootPage_init \<or> p = BackPage_init)"

text \<open>\<open>current_page\<close> is \<open>None\<close> or an index into \<open>pages\<close>.\<close>

definition valid_current_page :: "page \<Rightarrow> bool" where
  "valid_current_page p =
     (case current_page p of None \<Rightarrow> True | Some i \<Rightarrow> 0 \<le> i \<and> i < int (length (pages p)))"

section \<open>Auxiliary facts\<close>

text \<open>\<open>round\<close> returns an integer that is at most one half away.\<close>

lemma py_round_nearest: "\<bar>of_int (py_round x) - x\<bar> \<le> 1 / 2"
  unfolding py_round_def Let_def by (auto simp: abs_if) linarith+

text \<open>A subpage that a call leaves as it was goes back into the list unchanged.\<close>

lemma put_back_same: "getitem xs i = Inr x \<Longrightarrow> put_back xs i x = xs"
  by (auto simp: getitem_def put_back_def split: option.splits)

text \<open>\<open>update\<close> assigns to no attribute, neither of the page nor of its subpages.\<close>

lemma update_unchanged: "update e p = Inr (p', out) \<Longrightarrow> p' = p"
proof (induction e p arbitrary: p' out rule: update.induct)
  case (2 e ps cp)
  show ?case
  proof (cases cp)
    case None
    with "2.prems" show ?thesis by (auto split: sum.splits)
  next
    case (Some i)
    with "2.prems" obtain sub sub' where
      g: "getitem ps i = Inr sub" and u: "update e sub = Inr (sub', out)"
      and p': "p' = MinMaxTemperaturePage (put_back ps i sub') cp"
      by (auto split: sum.splits)
    from "2.IH" [OF Some g u] have "sub' = sub" .
    with g p' show ?thesis by (simp add: put_back_same)
  qed
next
  case (4 e bp ps cp)
  show ?case
  proof (cases cp)
    case None
    with "4.prems" show ?thesis by (auto split: sum.splits)
  next
    case (Some i)
    with "4.prems" obtain sub sub' where
      g: "getitem ps i = Inr sub" and u: "update e sub = Inr (sub', out)"
      and p': "p' = SettingsPage bp (put_back ps i sub') cp"
      by (auto split: sum.splits)
    from "4.IH" [OF Some g u] have "sub' = sub" .
    with g p' show ?thesis by (simp add: put_back_same)
  qed
qed (auto split: sum.splits)

lemma position_3: "position 3 i = Some k \<Longrightarrow> k = 0 \<or> k = 1 \<or> k = 2"
  by (auto simp: position_def split: if_splits)

text \<open>
  From a constructed page, \<open>update\<close> and \<open>click\<close> reach two states at most: the page
  as constructed, and, for a page with subpages, the page on its first subpage.
\<close>

lemma step_reachable:
  assumes "constructed p0"
    and "p = p0 \<or> (p = with_current_page (Some 0) p0 \<and> pages p0 \<noteq> [])"
    and "step p ev = Inr (p', out)"
  shows "p' = p0 \<or> (p' = with_current_page (Some 0) p0 \<and> pages p0 \<noteq> [])"
proof (cases ev)
  case (Update e)
  with assms(3) have "p' = p" by (simp add: update_unchanged)
  with assms(2) show ?thesis by simp
next
  case Click
  with assms show ?thesis
    by (cases p0)
      (auto simp: CurrentWeatherPage_init_def MinMaxTemperaturePage_init_def
         MinMaxHoursPage_init_def SettingsPage_init_def ShutdownPage_init_def
         RebootPage_init_def BackPage_init_def getitem_def put_back_def position_def)
qed

lemma run_reachable:
  assumes "constructed p0"
  shows "p = p0 \<or> (p = with_current_page (Some 0) p0 \<and> pages p0 \<noteq> []) \<Longrightarrow>
         run p evs = Inr (p', out) \<Longrightarrow>
         p' = p0 \<or> (p' = with_current_page (Some 0) p0 \<and> pages p0 \<noteq> [])"
proof (induction evs arbitrary: p out)
  case Nil
  then show ?case by auto
next
  case (Cons ev evs)
  from Cons.prems(2) obtain q o1 o2 where
    s: "step p ev = Inr (q, o1)" and r: "run q evs = Inr (p', o2)"
    by (auto split: sum.splits)
  from step_reachable [OF assms Cons.prems(1) s] have
    "q = p0 \<or> (q = with_current_page (Some 0) p0 \<and> pages p0 \<noteq> [])" .
  from Cons.IH [OF this r] show ?case .
qed

lemma pages_with_current_page: "pages (with_current_page v p) = pages p"
  by (cases p) simp_all

lemma current_page_with_current_page: "current_page (with_current_page v p) = v"
  by (cases p) simp_all

lemma reachable_valid:
  assumes "constructed p0"
    and "p = p0 \<or> (p = with_current_page (Some 0) p0 \<and> pages p0 \<noteq> [])"
  shows "valid_current_page p \<and> pages p = pages p0"
proof -
  from assms(1) have "current_page p0 = None"
    by (cases p0)
      (auto simp: CurrentWeatherPage_init_def MinMaxTemperaturePage_init_def
         MinMaxHoursPage_init_def SettingsPage_init_def ShutdownPage_init_def
         RebootPage_init_def BackPage_init_def)
  with assms(2) show ?thesis
    by (auto simp: valid_current_page_def pages_with_current_page current_page_with_current_page)
qed

lemma reachable_click:
  assumes "constructed p0"
    and "p = p0 \<or> (p = with_current_page (Some 0) p0 \<and> pages p0 \<noteq> [])"
  shows "\<exists>p' out'. click p = Inr (p', out')"
  using assms
  by (cases p0)
    (auto simp: CurrentWeatherPage_init_def MinMaxTemperaturePage_init_def
       MinMaxHoursPage_init_def SettingsPage_init_def ShutdownPage_init_def
       RebootPage_init_def BackPage_init_def getitem_def put_back_def position_def)




section \<open>Properties\<close>

subsection \<open>Navigation\<close>

text \<open>
  C1. SettingsPage.click. On the main page (\<open>current_page = None\<close>) a click selects
  index 0, the ShutdownPage. While a subpage is shown (the index \<open>i\<close> names the place
  \<open>k\<close> among the three subpages) the click is handed to that subpage: the effects are
  those of the click of the subpage, and \<open>current_page\<close> becomes \<open>None\<close> exactly when
  the subpage is the BackPage, at place 2. After a click on the ShutdownPage or the
  RebootPage it is left as it was.
\<close>

theorem SettingsPage_click_navigation:
  assumes "position 3 i = Some k"
  shows "click (SettingsPage_init bp) = Inr (with_current_page (Some 0) (SettingsPage_init bp), []) \<and>
         pages (SettingsPage_init bp) = [ShutdownPage_init, RebootPage_init, BackPage_init] \<and>
         getitem (pages (SettingsPage_init bp)) i = Inr (pages (SettingsPage_init bp) ! k) \<and>
         (\<exists>out. click (pages (SettingsPage_init bp) ! k) = Inr (pages (SettingsPage_init bp) ! k, out) \<and>
            click (with_current_page (Some i) (SettingsPage_init bp)) =
              Inr (with_current_page (if k = 2 then None else Some i) (SettingsPage_init bp), out))"
proof -
  from assms have "k = 0 \<or> k = 1 \<or> k = 2" by (rule position_3)
  with assms show ?thesis
    by (auto simp: SettingsPage_init_def ShutdownPage_init_def RebootPage_init_def BackPage_init_def
          getitem_def put_back_def numeral_3_eq_3)
qed

theorem SettingsPage_click_navigation_witness:
  "position 3 (- 1) = Some 2 \<and>
   click (with_current_page (Some (- 1)) (SettingsPage_init ''/home/pi'')) =
     Inr (SettingsPage_init ''/home/pi'', [print ''Back clicked''])"
proof -
  have h: "position 3 (- 1) = Some 2" by (simp add: position_def)
  from SettingsPage_click_navigation [OF h, of "''/home/pi''"] h show ?thesis
    by (auto simp: SettingsPage_init_def BackPage_init_def)
qed

text \<open>
  C2. A MinMaxTemperaturePage is on its main page after construction. The first click
  selects index 0, where its only subpage, the MinMaxHoursPage, is. The second click is
  handed to that subpage and brings the page back to the main page: after the two
  clicks the page is as it was constructed.
\<close>

theorem MinMaxTemperaturePage_click_click:
  "current_page MinMaxTemperaturePage_init = None \<and>
   run MinMaxTemperaturePage_init [Click] =
     Inr (with_current_page (Some 0) MinMaxTemperaturePage_init, []) \<and>
   getitem (pages MinMaxTemperaturePage_init) 0 = Inr MinMaxHoursPage_init \<and>
   run MinMaxTemperaturePage_init [Click, Click] =
     Inr (MinMaxTemperaturePage_init, [print ''MinMaxHoursPage clicked''])"
  by (simp add: MinMaxTemperaturePage_init_def MinMaxHoursPage_init_def getitem_def put_back_def
        position_def)

text \<open>
  C3. The two pages with subpages, MinMaxTemperaturePage and SettingsPage, have
  \<open>current_page = None\<close> right after construction: each starts on its main page.
\<close>

theorem containers_start_on_main_page:
  "current_page MinMaxTemperaturePage_init = None \<and> current_page (SettingsPage_init bp) = None"
  by (simp add: MinMaxTemperaturePage_init_def SettingsPage_init_def)

text \<open>
  C4. Take a page of any of the seven classes as constructed and any sequence of
  \<open>update\<close> and \<open>click\<close> calls that returns. Afterwards \<open>current_page\<close> is \<open>None\<close> or
  an index into \<open>pages\<close>, and \<open>pages\<close> is the list of the construction. One more call
  of either method keeps both, and a click in such a state never raises.
\<close>

theorem current_page_valid_invariant:
  assumes "constructed p0" and "run p0 evs = Inr (p, out)"
  shows "valid_current_page p \<and> pages p = pages p0 \<and>
         (\<forall>ev p' out'. step p ev = Inr (p', out') \<longrightarrow>
            valid_current_page p' \<and> pages p' = pages p0) \<and>
         (\<exists>p' out'. click p = Inr (p', out'))"
proof -
  have r: "p = p0 \<or> (p = with_current_page (Some 0) p0 \<and> pages p0 \<noteq> [])"
    using run_reachable [OF assms(1) _ assms(2)] by simp
  have "valid_current_page p' \<and> pages p' = pages p0" if "step p ev = Inr (p', out')" for ev p' out'
    using reachable_valid [OF assms(1) step_reachable [OF assms(1) r that]] .
  with reachable_valid [OF assms(1) r] reachable_click [OF assms(1) r] show ?thesis
    by blast
qed

theorem current_page_valid_invariant_witness:
  "constructed (SettingsPage_init ''/home/pi'') \<and>
   run (SettingsPage_init ''/home/pi'') [Click, Click] =
     Inr (with_current_page (Some 0) (SettingsPage_init ''/home/pi''), ShutdownPage_click) \<and>
   valid_current_page (with_current_page (Some 0) (SettingsPage_init ''/home/pi''))"
proof -
  have c: "constructed (SettingsPage_init ''/home/pi'')"
    by (simp add: SettingsPage_init_def)
  have r: "run (SettingsPage_init ''/home/pi'') [Click, Click] =
     Inr (with_current_page (Some 0) (SettingsPage_init ''/home/pi''), ShutdownPage_click)"
    by (simp add: SettingsPage_init_def ShutdownPage_init_def getitem_def put_back_def position_def)
  from current_page_valid_invariant [OF c r] c r show ?thesis by simp
qed

subsection \<open>What update draws\<close>

text \<open>
  C5. CurrentWeatherPage.update. Without outside data (\<open>weather_hour\<close> is \<open>None\<close>)
  \<open>display\<close> gets \<open>None\<close> for the outside temperature and for the icon, and the inside
  temperature as text when there is one. With outside data, an outside temperature, an
  icon code and the icon file, \<open>display\<close> gets the temperatures as the text of the
  rounded value and the image of the file named by the first two characters of the icon
  code. The rounded value is at most one half away from the temperature. 21.6 gives
  the text 22, the icon code 10d the name 10.
\<close>

theorem CurrentWeatherPage_update_display:
  "(weather_hour (station e) = None \<longrightarrow>
      update e (CurrentWeatherPage bp ps cp) =
        Inr (CurrentWeatherPage bp ps cp,
             [display None (map_option (\<lambda>x. str (py_round x)) (inside_temp (station e))) None,
              print ''Screen updated.''])) \<and>
   (weather_hour (station e) = Some u \<and> outside_temp (station e) = Some t \<and>
    icon (station e) = Some ic \<and>
    files e (Path_join bp (''icons/'' @ take 2 ic @ ''.bmp'')) = Some img \<longrightarrow>
      update e (CurrentWeatherPage bp ps cp) =
        Inr (CurrentWeatherPage bp ps cp,
             [display (Some (str (py_round t)))
                (map_option (\<lambda>x. str (py_round x)) (inside_temp (station e))) (Some img),
              print ''Screen updated.''])) \<and>
   (\<forall>x. \<bar>of_int (py_round x) - x\<bar> \<le> 1 / 2) \<and>
   str (py_round (216 / 10)) = ''22'' \<and> take 2 ''10d'' = ''10''"
proof (intro conjI impI allI)
  show "str (py_round (216 / 10)) = ''22''" by code_simp
  show "\<bar>of_int (py_round x) - x\<bar> \<le> 1 / 2" for x by (rule py_round_nearest)
qed (auto simp: CurrentWeatherPage_update_def Image_open_def icon_file_def)

theorem CurrentWeatherPage_update_display_witness:
  "update
     \<lparr>station = \<lparr>weather_hour = None, outside_temp = Some (216 / 10),
        inside_temp = Some (204 / 10), icon = Some ''10d'', coldest = None, hottest = None\<rparr>,
      files = (\<lambda>f. None), utc_offset = (\<lambda>t. 3600)\<rparr>
     (CurrentWeatherPage_init ''/home/pi'') =
     Inr (CurrentWeatherPage_init ''/home/pi'',
          [display None (Some ''20'') None, print ''Screen updated.'']) \<and>
   update
     \<lparr>station = \<lparr>weather_hour = Some (), outside_temp = Some (216 / 10),
        inside_temp = None, icon = Some ''10d'', coldest = None, hottest = None\<rparr>,
      files = (\<lambda>f. if f = Path_join ''/home/pi'' ''icons/10.bmp'' then Some [66, 77] else None),
      utc_offset = (\<lambda>t. 3600)\<rparr>
     (CurrentWeatherPage_init ''/home/pi'') =
     Inr (CurrentWeatherPage_init ''/home/pi'',
          [display (Some ''22'') None (Some [66, 77]), print ''Screen updated.''])"
proof -
  have i: "str (py_round (204 / 10)) = ''20''" by code_simp
  show ?thesis
    using i
      CurrentWeatherPage_update_display [where e =
        "\<lparr>station = \<lparr>weather_hour = None, outside_temp = Some (216 / 10),
            inside_temp = Some (204 / 10), icon = Some ''10d'', coldest = None, hottest = None\<rparr>,
          files = (\<lambda>f. None), utc_offset = (\<lambda>t. 3600)\<rparr>"
        and bp = "''/home/pi''" and ps = "[]" and cp = None]
      CurrentWeatherPage_update_display [where e =
        "\<lparr>station = \<lparr>weather_hour = Some (), outside_temp = Some (216 / 10),
            inside_temp = None, icon = Some ''10d'', coldest = None, hottest = None\<rparr>,
          files = (\<lambda>f. if f = Path_join ''/home/pi'' ''icons/10.bmp'' then Some [66, 77] else None),
          utc_offset = (\<lambda>t. 3600)\<rparr>"
        and bp = "''/home/pi''" and ps = "[]" and cp = None and u = "()" and t = "216 / 10"
        and ic = "''10d''" and img = "[66, 77]"]
    by (simp add: CurrentWeatherPage_init_def)
qed

text \<open>
  C6. MinMaxTemperaturePage.update on the main page. With the coldest and the hottest
  forecast it draws, with \<open>display_top_bottom\<close>, \<open>Min:\<close> and the rounded \<open>temp_min\<close>
  of the coldest over \<open>Max:\<close> and the rounded \<open>temp_max\<close> of the hottest; 3.2 and
  18.7 give \<open>Min:3\<close> and \<open>Max:19\<close>. Without a forecast it draws \<open>Min Max\<close> over
  \<open>error\<close>.
\<close>

theorem MinMaxTemperaturePage_update_main:
  "(coldest (station e) = Some c \<and> hottest (station e) = Some h \<longrightarrow>
      update e (MinMaxTemperaturePage ps None) =
        Inr (MinMaxTemperaturePage ps None,
             [display_top_bottom (''Min:'' @ str (py_round (temp_min c)))
                (''Max:'' @ str (py_round (temp_max h)))])) \<and>
   (coldest (station e) = None \<longrightarrow>
      update e (MinMaxTemperaturePage ps None) =
        Inr (MinMaxTemperaturePage ps None, [display_top_bottom ''Min Max'' ''error''])) \<and>
   (\<forall>x. \<bar>of_int (py_round x) - x\<bar> \<le> 1 / 2) \<and>
   ''Min:'' @ str (py_round (32 / 10)) = ''Min:3'' \<and>
   ''Max:'' @ str (py_round (187 / 10)) = ''Max:19''"
proof (intro conjI impI allI)
  show "''Min:'' @ str (py_round (32 / 10)) = ''Min:3''" by code_simp
  show "''Max:'' @ str (py_round (187 / 10)) = ''Max:19''" by code_simp
  show "\<bar>of_int (py_round x) - x\<bar> \<le> 1 / 2" for x by (rule py_round_nearest)
qed (auto simp: MinMaxTemperaturePage_main_def)

theorem MinMaxTemperaturePage_update_main_witness:
  "update
     \<lparr>station = \<lparr>weather_hour = None, outside_temp = None, inside_temp = None, icon = None,
        coldest = Some \<lparr>temp_min = 32 / 10, temp_max = 9, reference_time = 1541394930\<rparr>,
        hottest = Some \<lparr>temp_min = 14, temp_max = 187 / 10, reference_time = 1541428920\<rparr>\<rparr>,
      files = (\<lambda>f. None), utc_offset = (\<lambda>t. 3600)\<rparr>
     MinMaxTemperaturePage_init =
     Inr (MinMaxTemperaturePage_init, [display_top_bottom ''Min:3'' ''Max:19'']) \<and>
   update
     \<lparr>station = \<lparr>weather_hour = None, outside_temp = None, inside_temp = None, icon = None,
        coldest = None, hottest = None\<rparr>,
      files = (\<lambda>f. None), utc_offset = (\<lambda>t. 3600)\<rparr>
     MinMaxTemperaturePage_init =
     Inr (MinMaxTemperaturePage_init, [display_top_bottom ''Min Max'' ''error''])"
  using
    MinMaxTemperaturePage_update_main [where e =
      "\<lparr>station = \<lparr>weather_hour = None, outside_temp = None, inside_temp = None, icon = None,
          coldest = Some \<lparr>temp_min = 32 / 10, temp_max = 9, reference_time = 1541394930\<rparr>,
          hottest = Some \<lparr>temp_min = 14, temp_max = 187 / 10, reference_time = 1541428920\<rparr>\<rparr>,
        files = (\<lambda>f. None), utc_offset = (\<lambda>t. 3600)\<rparr>"
      and c = "\<lparr>temp_min = 32 / 10, temp_max = 9, reference_time = 1541394930\<rparr>"
      and h = "\<lparr>temp_min = 14, temp_max = 187 / 10, reference_time = 1541428920\<rparr>"
      and ps = "[MinMaxHoursPage_init]"]
    MinMaxTemperaturePage_update_main [where e =
      "\<lparr>station = \<lparr>weather_hour = None, outside_temp = None, inside_temp = None, icon = None,
          coldest = None, hottest = None\<rparr>,
        files = (\<lambda>f. None), utc_offset = (\<lambda>t. 3600)\<rparr>"
      and ps = "[MinMaxHoursPage_init]"]
  by (simp add: MinMaxTemperaturePage_init_def)



subsection \<open>Shutdown and reboot\<close>

text \<open>
  C8. ShutdownPage.click and RebootPage.click. After the line written to standard
  output, each draws one, two, three and four dots with \<open>display_text\<close>, pauses 0.2
  seconds after each, clears the screen with the empty text and only then gives the
  command to the host. The two sequences differ in that command alone (and in the line
  written to standard output, which is no call on the screen).
\<close>

theorem Shutdown_Reboot_click_effects:
  "click (ShutdownPage ps cp) =
     Inr (ShutdownPage ps cp,
          print ''Shutdown clicked'' #
          [display_text ''.'', sleep (1 / 5), display_text ''..'', sleep (1 / 5),
           display_text ''...'', sleep (1 / 5), display_text ''....'', sleep (1 / 5),
           display_text ''''] @ [os_system ''sudo shutdown -h now'']) \<and>
   click (RebootPage ps cp) =
     Inr (RebootPage ps cp,
          print ''Reboot clicked'' #
          [display_text ''.'', sleep (1 / 5), display_text ''..'', sleep (1 / 5),
           display_text ''...'', sleep (1 / 5), display_text ''....'', sleep (1 / 5),
           display_text ''''] @ [os_system ''sudo reboot''])"
  by (simp add: ShutdownPage_click_def RebootPage_click_def)

subsection \<open>Repeated update\<close>

text \<open>
  C9. \<open>update\<close> leaves the page as it was, for every page in every navigation state.
  So \<open>n\<close> calls in a row, with the same station, files and clock and no click in
  between, draw \<open>n\<close> times what the first call draws; and when the first call raises,
  it is that exception again.
\<close>

theorem update_repeatable:
  "(update e p = Inr (p', out) \<longrightarrow>
      p' = p \<and> run p (replicate n (Update e)) = Inr (p, concat (replicate n out))) \<and>
   (update e p = Inl x \<longrightarrow> run p (replicate (Suc n) (Update e)) = Inl x)"
proof (intro conjI impI)
  assume u: "update e p = Inr (p', out)"
  then show "p' = p" by (rule update_unchanged)
  with u have u': "update e p = Inr (p, out)" by simp
  show "run p (replicate n (Update e)) = Inr (p, concat (replicate n out))"
    by (induction n) (simp_all add: u')
next
  assume "update e p = Inl x"
  then show "run p (replicate (Suc n) (Update e)) = Inl x" by simp
qed

theorem update_repeatable_witness:
  "run MinMaxTemperaturePage_init
     (replicate 3 (Update \<lparr>station = \<lparr>weather_hour = None, outside_temp = None,
        inside_temp = None, icon = None, coldest = None, hottest = None\<rparr>,
        files = (\<lambda>f. None), utc_offset = (\<lambda>t. 3600)\<rparr>)) =
     Inr (MinMaxTemperaturePage_init,
          [display_top_bottom ''Min Max'' ''error'', display_top_bottom ''Min Max'' ''error'',
           display_top_bottom ''Min Max'' ''error'']) \<and>
   run MinMaxTemperaturePage_init
     (replicate (Suc 2) (Update \<lparr>station = \<lparr>weather_hour = None, outside_temp = None,
        inside_temp = None, icon = None,
        coldest = Some \<lparr>temp_min = 32 / 10, temp_max = 9, reference_time = 1541394930\<rparr>,
        hottest = None\<rparr>,
        files = (\<lambda>f. None), utc_offset = (\<lambda>t. 3600)\<rparr>)) = Inl AttributeError"
  using
    update_repeatable [where e = "\<lparr>station = \<lparr>weather_hour = None, outside_temp = None,
        inside_temp = None, icon = None, coldest = None, hottest = None\<rparr>,
        files = (\<lambda>f. None), utc_offset = (\<lambda>t. 3600)\<rparr>"
      and p = MinMaxTemperaturePage_init and p' = MinMaxTemperaturePage_init
      and out = "[display_top_bottom ''Min Max'' ''error'']" and n = 3]
    update_repeatable [where e = "\<lparr>station = \<lparr>weather_hour = None, outside_temp = None,
        inside_temp = None, icon = None,
        coldest = Some \<lparr>temp_min = 32 / 10, temp_max = 9, reference_time = 1541394930\<rparr>,
        hottest = None\<rparr>,
        files = (\<lambda>f. None), utc_offset = (\<lambda>t. 3600)\<rparr>"
      and p = MinMaxTemperaturePage_init and x = AttributeError and n = 2]
  by (simp add: MinMaxTemperaturePage_init_def MinMaxTemperaturePage_main_def numeral_3_eq_3)

subsection \<open>A forecast with the coldest record only\<close>



end
